theory Spec2Isabelle
  imports Main "HOL-Library.AList"
begin

section \<open>The EGA public metadata client (class \<open>EGAClient\<close> of the notebook)\<close>

text \<open>
  The notebook \<^verbatim>\<open>ega-public-metadata.ipynb\<close> defines one class, \<open>EGAClient\<close>, with a
  constructor, the private method \<open>_get\<close> and the two public methods \<open>get_entity\<close> and
  \<open>get_related_entities\<close>. The methods talk to the network through the third-party
  library \<open>requests\<close>, so the embedding has two layers:
  \<^item> the environment: what \<open>requests.get\<close>, \<open>Response.raise_for_status\<close> and
    \<open>Response.json\<close> do, with the network as an arbitrary server function and a log
    of the requests sent;
  \<^item> the class itself, method by method, with the client object and the world passed
    in and returned, so that every effect of a call is visible in its result.
\<close>

subsection \<open>The environment: requests, responses, the network\<close>

text \<open>
  A request as \<open>requests.get(url, params=params)\<close> hands it to the library: the method,
  the URL string and the parameter dictionary. The dictionary is an association list in
  insertion order, as a Python \<open>dict\<close> keeps it; its values are Python integers.
\<close>

record request =
  meth :: string
  url :: string
  params :: "(string \<times> int) list"

text \<open>
  A response carries its status code and what \<open>response.json()\<close> makes of its body:
  \<open>None\<close> when the body is not valid JSON. The type \<open>'j\<close> of decoded JSON values is
  left open, since the client imposes no schema.
\<close>

record 'j response =
  status_code :: int
  json :: "'j option"

datatype 'j reply = Unreachable | Reply "'j response"

text \<open>
  The exceptions a call can end with: \<open>ConnectionError\<close> (the connection failed),
  \<open>HTTPError\<close> with the offending status (raised by \<open>raise_for_status\<close>) and
  \<open>JSONDecodeError\<close> (raised by \<open>response.json()\<close>). The first two are what the
  specification calls a request error, the third what it calls a decode error.
\<close>

datatype error = ConnectionError | HTTPError int | JSONDecodeError

text \<open>
  The world, seen at two levels. At the level of the library, \<open>sent\<close> logs the
  requests handed to \<open>requests.get\<close>, and \<open>serve\<close> is what such a call ends with,
  knowing the calls that came before it. At the level of the network, \<open>wire\<close> logs
  the HTTP requests that went out, and \<open>followed\<close> is what the library and the
  servers make of one call: \<open>None\<close> when the library raises before it sends anything
  (a URL it rejects), and otherwise the targets of the redirects that the servers
  answer with and the library follows (it is called with its default,
  \<open>allow_redirects=True\<close>), in order.
\<close>

record 'j world =
  sent :: "request list"
  serve :: "request list \<Rightarrow> request \<Rightarrow> 'j reply"
  wire :: "request list"
  followed :: "request list \<Rightarrow> request \<Rightarrow> string list option"

text \<open>
  The HTTP requests of one call of the library: nothing, or the request itself and
  then one more GET for each redirect followed, to the target of that redirect.
\<close>

definition redirected :: "string \<Rightarrow> request" where
  "redirected u = \<lparr>meth = ''GET'', url = u, params = []\<rparr>"

definition on_wire :: "string list option \<Rightarrow> request \<Rightarrow> request list" where
  "on_wire f rq = (case f of None \<Rightarrow> [] | Some locs \<Rightarrow> rq # map redirected locs)"

text \<open>
  \<open>requests.get(url, params)\<close>: one GET request is handed to the library and logged
  in \<open>sent\<close>; the answer is the final response, or the connection error, which stands
  for every exception the library raises in place of a response. The HTTP requests
  that the library sends for the call are logged in \<open>wire\<close>. A missing \<open>params\<close>
  (\<open>None\<close>) sends no parameters, as an empty dictionary does.
\<close>

definition requests_get ::
  "string \<Rightarrow> (string \<times> int) list option \<Rightarrow> 'j world \<Rightarrow> (error + 'j response) \<times> 'j world" where
  "requests_get u ps w =
     (let rq = \<lparr>meth = ''GET'', url = u, params = (case ps of None \<Rightarrow> [] | Some d \<Rightarrow> d)\<rparr>
      in (case serve w (sent w) rq of
            Unreachable \<Rightarrow> Inl ConnectionError
          | Reply r \<Rightarrow> Inr r,
          w\<lparr>sent := sent w @ [rq],
            wire := wire w @ on_wire (followed w (sent w) rq) rq\<rparr>))"

text \<open>
  \<open>Response.raise_for_status()\<close> of the library raises \<open>HTTPError\<close> for the client
  errors (400 to 499) and the server errors (500 to 599), and returns for every other
  status code.
\<close>

definition raise_for_status :: "'j response \<Rightarrow> error option" where
  "raise_for_status r =
     (if 400 \<le> status_code r \<and> status_code r < 600
      then Some (HTTPError (status_code r)) else None)"

text \<open>\<open>Response.json()\<close>: the decoded body, or the decoding error.\<close>

definition response_json :: "'j response \<Rightarrow> error + 'j" where
  "response_json r = (case json r of None \<Rightarrow> Inl JSONDecodeError | Some j \<Rightarrow> Inr j)"

text \<open>
  The library writes the parameter dictionary into the query string as \<open>key=value\<close>
  pairs joined by \<open>&\<close>, integers in decimal; an empty dictionary gives the empty
  string, and then no query string is attached to the URL.
\<close>

fun str_nat :: "nat \<Rightarrow> string" where
  "str_nat n =
     (if n < 10 then [''0123456789'' ! n]
      else str_nat (n div 10) @ [''0123456789'' ! (n mod 10)])"

declare str_nat.simps [simp del]

definition str_int :: "int \<Rightarrow> string" where
  "str_int i = (if i < 0 then ''-'' @ str_nat (nat (- i)) else str_nat (nat i))"

fun encode_params :: "(string \<times> int) list \<Rightarrow> string" where
  "encode_params [] = ''''"
| "encode_params [(k, v)] = k @ ''='' @ str_int v"
| "encode_params ((k, v) # kvs) = k @ ''='' @ str_int v @ ''&'' @ encode_params kvs"

subsection \<open>The class \<open>EGAClient\<close>\<close>

text \<open>The object has one attribute, \<open>base_url\<close>, set by the constructor.\<close>

record client =
  base_url :: string

definition default_base_url :: string where
  "default_base_url = ''https://metadata.ega-archive.org''"

text \<open>\<open>__init__(self, base_url='https://metadata.ega-archive.org')\<close>\<close>

definition init :: "string option \<Rightarrow> client" where
  "init b = \<lparr>base_url = (case b of None \<Rightarrow> default_base_url | Some u \<Rightarrow> u)\<rparr>"

text \<open>
  \<open>_get(self, endpoint, params=None)\<close> (the name cannot start with an underscore
  here). Each of the three library calls can raise, and nothing catches: the first
  exception is the outcome of the method.
\<close>

definition private_get ::
  "client \<Rightarrow> string \<Rightarrow> (string \<times> int) list option \<Rightarrow> 'j world
     \<Rightarrow> (error + 'j) \<times> client \<times> 'j world" where
  "private_get self endpoint ps w =
     (let u = base_url self @ ''/'' @ endpoint;
          (got, w') = requests_get u ps w
      in case got of
           Inl e \<Rightarrow> (Inl e, self, w')
         | Inr response \<Rightarrow>
             (case raise_for_status response of
                Some e \<Rightarrow> (Inl e, self, w')
              | None \<Rightarrow> (response_json response, self, w')))"

text \<open>
  \<open>if accession_id:\<close> is Python's truth test: \<open>None\<close> and the empty string are
  false, every other string is true.
\<close>

definition truthy :: "string option \<Rightarrow> bool" where
  "truthy a = (case a of None \<Rightarrow> False | Some s \<Rightarrow> s \<noteq> [])"

text \<open>\<open>get_entity(self, entity_type, accession_id=None, limit=None, offset=None)\<close>\<close>

definition get_entity ::
  "client \<Rightarrow> string \<Rightarrow> string option \<Rightarrow> int option \<Rightarrow> int option \<Rightarrow> 'j world
     \<Rightarrow> (error + 'j) \<times> client \<times> 'j world" where
  "get_entity self entity_type accession_id limit offset w =
     (let ps = [];
          endpoint = entity_type;
          endpoint = (case accession_id of
                        Some a \<Rightarrow> if truthy accession_id then endpoint @ ''/'' @ a else endpoint
                      | None \<Rightarrow> endpoint);
          ps = (case limit of Some l \<Rightarrow> AList.update ''limit'' l ps | None \<Rightarrow> ps);
          ps = (case offset of Some off \<Rightarrow> AList.update ''offset'' off ps | None \<Rightarrow> ps)
      in private_get self endpoint (Some ps) w)"

text \<open>
  \<open>get_related_entities(self, entity_type, related_entity_type, accession_id,
  limit=None, offset=None)\<close>
\<close>

definition get_related_entities ::
  "client \<Rightarrow> string \<Rightarrow> string \<Rightarrow> string option \<Rightarrow> int option \<Rightarrow> int option \<Rightarrow> 'j world
     \<Rightarrow> (error + 'j) \<times> client \<times> 'j world" where
  "get_related_entities self entity_type related_entity_type accession_id limit offset w =
     (let ps = [];
          endpoint = entity_type;
          endpoint = (case accession_id of
                        Some a \<Rightarrow> if truthy accession_id
                                  then endpoint @ ''/'' @ a @ ''/'' @ related_entity_type
                                  else endpoint
                      | None \<Rightarrow> endpoint);
          ps = (case limit of Some l \<Rightarrow> AList.update ''limit'' l ps | None \<Rightarrow> ps);
          ps = (case offset of Some off \<Rightarrow> AList.update ''offset'' off ps | None \<Rightarrow> ps)
      in private_get self endpoint (Some ps) w)"

subsection \<open>Observing a call\<close>

text \<open>
  The requests a call has sent: what its final world logs beyond the world it started
  in, at the level of the library (\<open>issued_by\<close>) and on the wire (\<open>outbound\<close>). The
  value of a query parameter in a request is \<open>None\<close> when the parameter does not
  occur in it. A server that gives the same answer to every request, through the same
  redirects, serves as the network of the concrete examples.
\<close>

definition issued_by :: "'j world \<Rightarrow> (error + 'j) \<times> client \<times> 'j world \<Rightarrow> request list" where
  "issued_by w out = drop (length (sent w)) (sent (snd (snd out)))"

definition query_param :: "string \<Rightarrow> request \<Rightarrow> int option" where
  "query_param k rq = map_of (params rq) k"

definition outbound :: "'j world \<Rightarrow> (error + 'j) \<times> client \<times> 'j world \<Rightarrow> request list" where
  "outbound w out = drop (length (wire w)) (wire (snd (snd out)))"

definition canned :: "'j reply \<Rightarrow> request list \<Rightarrow> request \<Rightarrow> 'j reply" where
  "canned r hist rq = r"

definition via :: "string list \<Rightarrow> request list \<Rightarrow> request \<Rightarrow> string list option" where
  "via locs hist rq = Some locs"

section \<open>Properties\<close>

subsection \<open>What one call does\<close>

lemma private_get_eq:
  "private_get self endpoint ps w =
     (case serve w (sent w)
             \<lparr>meth = ''GET'', url = base_url self @ ''/'' @ endpoint,
              params = (case ps of None \<Rightarrow> [] | Some d \<Rightarrow> d)\<rparr> of
        Unreachable \<Rightarrow> Inl ConnectionError
      | Reply r \<Rightarrow>
          if 400 \<le> status_code r \<and> status_code r < 600 then Inl (HTTPError (status_code r))
          else (case json r of None \<Rightarrow> Inl JSONDecodeError | Some j \<Rightarrow> Inr j),
      self,
      w\<lparr>sent := sent w @
         [\<lparr>meth = ''GET'', url = base_url self @ ''/'' @ endpoint,
           params = (case ps of None \<Rightarrow> [] | Some d \<Rightarrow> d)\<rparr>],
        wire := wire w @
         on_wire (followed w (sent w)
             \<lparr>meth = ''GET'', url = base_url self @ ''/'' @ endpoint,
              params = (case ps of None \<Rightarrow> [] | Some d \<Rightarrow> d)\<rparr>)
           \<lparr>meth = ''GET'', url = base_url self @ ''/'' @ endpoint,
            params = (case ps of None \<Rightarrow> [] | Some d \<Rightarrow> d)\<rparr>\<rparr>)"
  by (simp add: private_get_def requests_get_def raise_for_status_def response_json_def
        Let_def split: reply.split)

lemma issued_by_private_get:
  "issued_by w (private_get self endpoint ps w) =
     [\<lparr>meth = ''GET'', url = base_url self @ ''/'' @ endpoint,
       params = (case ps of None \<Rightarrow> [] | Some d \<Rightarrow> d)\<rparr>]"
  by (simp add: issued_by_def private_get_eq)

lemma private_get_outcome:
  "\<exists>rq. issued_by w (private_get self endpoint ps w) = [rq]
     \<and> fst (private_get self endpoint ps w) =
         (case serve w (sent w) rq of
            Unreachable \<Rightarrow> Inl ConnectionError
          | Reply r \<Rightarrow>
              if 400 \<le> status_code r \<and> status_code r < 600
              then Inl (HTTPError (status_code r))
              else (case json r of None \<Rightarrow> Inl JSONDecodeError | Some j \<Rightarrow> Inr j))"
  by (simp add: issued_by_def private_get_eq)

lemma length_on_wire:
  "(length (on_wire f rq) = Suc 0) = (f = Some [])"
  by (simp add: on_wire_def split: option.split)

lemma private_get_frame:
  "fst (snd (private_get self endpoint ps w)) = self
   \<and> base_url (fst (snd (private_get self endpoint ps w))) = base_url self
   \<and> length (issued_by w (private_get self endpoint ps w)) = 1
   \<and> (\<exists>rq. issued_by w (private_get self endpoint ps w) = [rq]
         \<and> snd (snd (private_get self endpoint ps w))
             = w\<lparr>sent := sent w @ [rq],
                 wire := wire w @ on_wire (followed w (sent w) rq) rq\<rparr>
         \<and> outbound w (private_get self endpoint ps w) = on_wire (followed w (sent w) rq) rq
         \<and> (length (outbound w (private_get self endpoint ps w)) = 1)
             = (followed w (sent w) rq = Some []))"
  by (simp add: issued_by_def outbound_def private_get_eq length_on_wire)

lemma get_entity_eq:
  "get_entity self entity_type accession_id limit offset w =
     private_get self
       (entity_type @ (case accession_id of None \<Rightarrow> [] | Some a \<Rightarrow> if a = [] then [] else ''/'' @ a))
       (Some ((case limit of None \<Rightarrow> [] | Some l \<Rightarrow> [(''limit'', l)]) @
              (case offset of None \<Rightarrow> [] | Some off \<Rightarrow> [(''offset'', off)])))
       w"
  by (simp add: get_entity_def truthy_def split: option.split)

lemma get_related_entities_eq:
  "get_related_entities self entity_type related_entity_type accession_id limit offset w =
     private_get self
       (entity_type @ (case accession_id of None \<Rightarrow> []
                       | Some a \<Rightarrow> if a = [] then [] else ''/'' @ a @ ''/'' @ related_entity_type))
       (Some ((case limit of None \<Rightarrow> [] | Some l \<Rightarrow> [(''limit'', l)]) @
              (case offset of None \<Rightarrow> [] | Some off \<Rightarrow> [(''offset'', off)])))
       w"
  by (simp add: get_related_entities_def truthy_def split: option.split)

lemma query_param_pagination:
  "query_param ''limit''
     \<lparr>meth = m, url = u,
      params = (case limit of None \<Rightarrow> [] | Some l \<Rightarrow> [(''limit'', l)]) @
               (case offset of None \<Rightarrow> [] | Some off \<Rightarrow> [(''offset'', off)])\<rparr> = limit"
  "query_param ''offset''
     \<lparr>meth = m, url = u,
      params = (case limit of None \<Rightarrow> [] | Some l \<Rightarrow> [(''limit'', l)]) @
               (case offset of None \<Rightarrow> [] | Some off \<Rightarrow> [(''offset'', off)])\<rparr> = offset"
  by (simp_all add: query_param_def split: option.split)

subsection \<open>Endpoint paths\<close>

text \<open>
  Claim C1, as amended. For every entity type, related entity type and non-empty
  accession id, \<open>get_related_entities\<close> sends exactly one request, a GET, whose URL is
  the base URL followed by the path \<open>entity_type/accession_id/related_entity_type\<close>:
  the accession id and the related entity type are both in the path, in that order.
\<close>

theorem get_related_entities_path:
  assumes "accession_id \<noteq> []"
  shows "map meth (issued_by w (get_related_entities self entity_type related_entity_type
             (Some accession_id) limit offset w)) = [''GET'']
       \<and> map url (issued_by w (get_related_entities self entity_type related_entity_type
             (Some accession_id) limit offset w))
           = [base_url self @ ''/'' @ entity_type @ ''/'' @ accession_id @ ''/'' @ related_entity_type]"
  using assms by (simp add: get_related_entities_eq issued_by_private_get)

theorem get_related_entities_path_witness:
  "''EGAS50000000209'' \<noteq> []
   \<and> map url (issued_by \<lparr>sent = [], serve = canned (Unreachable :: unit reply),
                                     wire = [], followed = via []\<rparr>
        (get_related_entities (init None) ''studies'' ''datasets'' (Some ''EGAS50000000209'')
           None None \<lparr>sent = [], serve = canned Unreachable,
                             wire = [], followed = via []\<rparr>))
       = [''https://metadata.ega-archive.org/studies/EGAS50000000209/datasets'']"
  using get_related_entities_path [of "''EGAS50000000209''"
      "\<lparr>sent = [], serve = canned (Unreachable :: unit reply),
               wire = [], followed = via []\<rparr>" "init None"
      "''studies''" "''datasets''" None None]
  by (simp add: init_def default_base_url_def)

text \<open>
  Claim C1 as stated, for every accession id, fails at the empty accession id: the
  guard \<open>if accession_id:\<close> skips the whole suffix, and the request goes to the bare
  entity type, not to \<open>datasets//samples\<close>.
\<close>

theorem get_related_entities_path_counterexample:
  "map url (issued_by \<lparr>sent = [], serve = canned (Unreachable :: unit reply),
                              wire = [], followed = via []\<rparr>
      (get_related_entities (init None) ''datasets'' ''samples'' (Some '''') None None
         \<lparr>sent = [], serve = canned Unreachable, wire = [], followed = via []\<rparr>))
     = [''https://metadata.ega-archive.org/datasets'']
   \<and> map url (issued_by \<lparr>sent = [], serve = canned (Unreachable :: unit reply),
                                     wire = [], followed = via []\<rparr>
      (get_related_entities (init None) ''datasets'' ''samples'' (Some '''') None None
         \<lparr>sent = [], serve = canned Unreachable, wire = [], followed = via []\<rparr>))
     \<noteq> [base_url (init None) @ ''/'' @ ''datasets'' @ ''/'' @ '''' @ ''/'' @ ''samples'']"
  by (simp add: get_related_entities_eq issued_by_private_get init_def default_base_url_def)

text \<open>
  Claim C3. For every entity type and every non-empty accession id, \<open>get_entity\<close>
  sends exactly one request, a GET, to the base URL followed by the path
  \<open>entity_type/accession_id\<close>.
\<close>

theorem get_entity_accession_path:
  assumes "accession_id \<noteq> []"
  shows "map meth (issued_by w (get_entity self entity_type (Some accession_id) limit offset w))
           = [''GET'']
       \<and> map url (issued_by w (get_entity self entity_type (Some accession_id) limit offset w))
           = [base_url self @ ''/'' @ entity_type @ ''/'' @ accession_id]"
  using assms by (simp add: get_entity_eq issued_by_private_get)

theorem get_entity_accession_path_witness:
  "''EGAS50000000209'' \<noteq> []
   \<and> map url (issued_by \<lparr>sent = [], serve = canned (Unreachable :: unit reply),
                                     wire = [], followed = via []\<rparr>
        (get_entity (init None) ''studies'' (Some ''EGAS50000000209'') None None
           \<lparr>sent = [], serve = canned Unreachable, wire = [], followed = via []\<rparr>))
       = [''https://metadata.ega-archive.org/studies/EGAS50000000209'']"
  using get_entity_accession_path [of "''EGAS50000000209''"
      "\<lparr>sent = [], serve = canned (Unreachable :: unit reply),
               wire = [], followed = via []\<rparr>" "init None"
      "''studies''" None None]
  by (simp add: init_def default_base_url_def)

text \<open>
  Claim C4. For every entity type, when the accession id is absent (\<open>None\<close>) or the
  empty string, \<open>get_entity\<close> sends exactly one request, a GET, to the base URL
  followed by the bare entity type, with no accession segment after it.
\<close>

theorem get_entity_bare_path:
  assumes "accession_id = None \<or> accession_id = Some ''''"
  shows "map meth (issued_by w (get_entity self entity_type accession_id limit offset w))
           = [''GET'']
       \<and> map url (issued_by w (get_entity self entity_type accession_id limit offset w))
           = [base_url self @ ''/'' @ entity_type]"
  using assms by (auto simp add: get_entity_eq issued_by_private_get)

theorem get_entity_bare_path_witness:
  "(Some '''' = (None :: string option) \<or> Some '''' = Some '''')
   \<and> map url (issued_by \<lparr>sent = [], serve = canned (Unreachable :: unit reply),
                                     wire = [], followed = via []\<rparr>
        (get_entity (init None) ''studies'' (Some '''') None None
           \<lparr>sent = [], serve = canned Unreachable, wire = [], followed = via []\<rparr>))
       = [''https://metadata.ega-archive.org/studies'']"
  using get_entity_bare_path [of "Some ''''"
      "\<lparr>sent = [], serve = canned (Unreachable :: unit reply),
               wire = [], followed = via []\<rparr>" "init None"
      "''studies''" None None]
  by (simp add: init_def default_base_url_def)

text \<open>
  Claim C10. When the accession id is \<open>None\<close> or the empty string,
  \<open>get_related_entities\<close> raises nothing for the missing accession: the related
  entity type is dropped with the accession segment, and the call is the call of
  \<open>get_entity\<close> without an accession, with the same result and the same single GET to
  the bare entity type, the given \<open>limit\<close> and \<open>offset\<close> still attached.
\<close>

theorem get_related_entities_falsy_accession:
  assumes "accession_id = None \<or> accession_id = Some ''''"
  shows "get_related_entities self entity_type related_entity_type accession_id limit offset w
           = get_entity self entity_type None limit offset w
       \<and> map meth (issued_by w (get_related_entities self entity_type related_entity_type
             accession_id limit offset w)) = [''GET'']
       \<and> map url (issued_by w (get_related_entities self entity_type related_entity_type
             accession_id limit offset w)) = [base_url self @ ''/'' @ entity_type]
       \<and> map (query_param ''limit'') (issued_by w (get_related_entities self entity_type
             related_entity_type accession_id limit offset w)) = [limit]
       \<and> map (query_param ''offset'') (issued_by w (get_related_entities self entity_type
             related_entity_type accession_id limit offset w)) = [offset]"
  using assms
  by (auto simp add: get_related_entities_eq get_entity_eq issued_by_private_get
        query_param_pagination)

theorem get_related_entities_falsy_accession_witness:
  "(Some '''' = (None :: string option) \<or> Some '''' = Some '''')
   \<and> get_related_entities (init None) ''datasets'' ''samples'' (Some '''') (Some 10) None
        \<lparr>sent = [], serve = canned (Reply \<lparr>status_code = 200, json = Some ''[]''\<rparr>),
                wire = [], followed = via []\<rparr>
     = (Inr ''[]'', init None,
        \<lparr>sent = [\<lparr>meth = ''GET'', url = ''https://metadata.ega-archive.org/datasets'',
                   params = [(''limit'', 10)]\<rparr>],
         serve = canned (Reply \<lparr>status_code = 200, json = Some ''[]''\<rparr>),
         wire = [\<lparr>meth = ''GET'', url = ''https://metadata.ega-archive.org/datasets'',
                   params = [(''limit'', 10)]\<rparr>],
         followed = via []\<rparr>)"
  using get_related_entities_falsy_accession [of "Some ''''" "init None" "''datasets''"
      "''samples''" "Some 10" None
      "\<lparr>sent = [], serve = canned (Reply \<lparr>status_code = 200, json = Some ''[]''\<rparr>),
               wire = [], followed = via []\<rparr>"]
  by (simp add: get_entity_eq private_get_eq init_def default_base_url_def canned_def
        via_def on_wire_def)

subsection \<open>Pagination parameters\<close>

text \<open>
  Claim C2. For every call of \<open>get_entity\<close> or \<open>get_related_entities\<close>, the query
  parameter \<open>limit\<close> of the request sent is the \<open>limit\<close> argument and the query
  parameter \<open>offset\<close> is the \<open>offset\<close> argument: a value that was passed appears
  as it was passed, and an argument that is \<open>None\<close> does not occur among the
  parameters at all. The parameter dictionary holds nothing else.
\<close>

theorem pagination_as_passed:
  assumes "out = get_entity self entity_type accession_id limit offset w
         \<or> out = get_related_entities self entity_type related_entity_type accession_id
                   limit offset w"
  shows "map (query_param ''limit'') (issued_by w out) = [limit]
       \<and> map (query_param ''offset'') (issued_by w out) = [offset]
       \<and> map params (issued_by w out)
           = [(case limit of None \<Rightarrow> [] | Some l \<Rightarrow> [(''limit'', l)]) @
              (case offset of None \<Rightarrow> [] | Some off \<Rightarrow> [(''offset'', off)])]"
  using assms
  by (auto simp add: get_related_entities_eq get_entity_eq issued_by_private_get
        query_param_pagination)

theorem pagination_as_passed_witness:
  "map (query_param ''limit'') (issued_by \<lparr>sent = [], serve = canned (Unreachable :: unit reply),
                                                  wire = [], followed = via []\<rparr>
      (get_entity (init None) ''studies'' None (Some 5) None
         \<lparr>sent = [], serve = canned Unreachable,
                 wire = [], followed = via []\<rparr>)) = [Some 5]
   \<and> map (query_param ''offset'') (issued_by \<lparr>sent = [], serve = canned (Unreachable :: unit reply),
                                                          wire = [], followed = via []\<rparr>
      (get_entity (init None) ''studies'' None (Some 5) None
         \<lparr>sent = [], serve = canned Unreachable,
                 wire = [], followed = via []\<rparr>)) = [None]
   \<and> map params (issued_by \<lparr>sent = [], serve = canned (Unreachable :: unit reply),
                                        wire = [], followed = via []\<rparr>
      (get_entity (init None) ''studies'' None (Some 5) None
         \<lparr>sent = [], serve = canned Unreachable,
                 wire = [], followed = via []\<rparr>)) = [[(''limit'', 5)]]"
  using pagination_as_passed [of
      "get_entity (init None) ''studies'' None (Some 5) None
         \<lparr>sent = [], serve = canned (Unreachable :: unit reply),
                 wire = [], followed = via []\<rparr>"
      "init None" "''studies''" None "Some 5" None
      "\<lparr>sent = [], serve = canned (Unreachable :: unit reply),
               wire = [], followed = via []\<rparr>"]
  by simp

text \<open>
  Claim C5. Zero is not absent: with \<open>limit = 0\<close> the request carries the query
  parameter \<open>limit\<close> with the value 0 (in the query string, \<open>limit=0\<close>), and the
  parameter is missing from the request exactly when the argument is \<open>None\<close>; the same
  for \<open>offset\<close>, in \<open>get_entity\<close> and in \<open>get_related_entities\<close>.
\<close>

theorem zero_is_not_absent:
  "map (query_param ''limit'') (issued_by w
       (get_entity self entity_type accession_id (Some 0) offset w)) = [Some 0]
   \<and> map (query_param ''offset'') (issued_by w
       (get_entity self entity_type accession_id limit (Some 0) w)) = [Some 0]
   \<and> map (query_param ''limit'') (issued_by w
       (get_related_entities self entity_type related_entity_type accession_id (Some 0) offset w))
         = [Some 0]
   \<and> map (query_param ''offset'') (issued_by w
       (get_related_entities self entity_type related_entity_type accession_id limit (Some 0) w))
         = [Some 0]
   \<and> (map (query_param ''limit'') (issued_by w
        (get_entity self entity_type accession_id limit offset w)) = [None]) = (limit = None)
   \<and> (map (query_param ''offset'') (issued_by w
        (get_entity self entity_type accession_id limit offset w)) = [None]) = (offset = None)
   \<and> (map (query_param ''limit'') (issued_by w
        (get_related_entities self entity_type related_entity_type accession_id limit offset w))
         = [None]) = (limit = None)
   \<and> (map (query_param ''offset'') (issued_by w
        (get_related_entities self entity_type related_entity_type accession_id limit offset w))
         = [None]) = (offset = None)
   \<and> map encode_params (map params (issued_by w
        (get_entity self entity_type accession_id (Some 0) None w))) = [''limit=0'']
   \<and> map encode_params (map params (issued_by w
        (get_entity self entity_type accession_id None (Some 0) w))) = [''offset=0'']"
proof -
  have zero: "str_int 0 = ''0''"
    by (simp add: str_int_def str_nat.simps)
  show ?thesis
    by (simp add: get_related_entities_eq get_entity_eq issued_by_private_get
          query_param_def zero split: option.split)
qed

subsection \<open>The two examples of the specification\<close>

text \<open>
  Claim C7. \<open>get_related_entities('datasets', 'samples', 'EGAD50000000298', limit=10,
  offset=2)\<close> sends exactly one request: a GET to
  \<open>{base_url}/datasets/EGAD50000000298/samples\<close> with the query parameters
  \<open>limit = 10\<close> and \<open>offset = 2\<close>, which the library writes as the query string
  \<open>limit=10&offset=2\<close>.
\<close>

theorem example_related_samples:
  "issued_by w (get_related_entities self ''datasets'' ''samples'' (Some ''EGAD50000000298'')
       (Some 10) (Some 2) w)
     = [\<lparr>meth = ''GET'', url = base_url self @ ''/datasets/EGAD50000000298/samples'',
         params = [(''limit'', 10), (''offset'', 2)]\<rparr>]
   \<and> map encode_params (map params (issued_by w (get_related_entities self ''datasets''
       ''samples'' (Some ''EGAD50000000298'') (Some 10) (Some 2) w)))
     = [''limit=10&offset=2'']"
proof -
  have ten: "str_int 10 = ''10''" and two: "str_int 2 = ''2''"
    by (simp_all add: str_int_def str_nat.simps)
  show ?thesis
    by (simp add: get_related_entities_eq issued_by_private_get ten two)
qed

text \<open>
  Claim C8. \<open>get_entity('studies', accession_id='EGAS50000000209')\<close> sends exactly
  one request: a GET to \<open>{base_url}/studies/EGAS50000000209\<close> whose parameter
  dictionary is empty, so that nothing is written into the query string.
\<close>

theorem example_single_study:
  "issued_by w (get_entity self ''studies'' (Some ''EGAS50000000209'') None None w)
     = [\<lparr>meth = ''GET'', url = base_url self @ ''/studies/EGAS50000000209'', params = []\<rparr>]
   \<and> map encode_params (map params (issued_by w (get_entity self ''studies''
       (Some ''EGAS50000000209'') None None w))) = ['''']"
  by (simp add: get_entity_eq issued_by_private_get)

subsection \<open>Errors\<close>

text \<open>
  Claim C6, as amended. For every call of \<open>get_entity\<close> or \<open>get_related_entities\<close>,
  exactly one request goes out and the outcome of the call is decided by its answer
  alone: a failed connection raises \<open>ConnectionError\<close>; a response with a status from
  400 to 599 raises \<open>HTTPError\<close>, whatever its body (no partial result); a response
  with any other status whose body is not valid JSON raises \<open>JSONDecodeError\<close>; and in
  every other case the call returns the decoded body. No error is caught on the way.
\<close>

theorem outcome_of_call:
  assumes "out = get_entity self entity_type accession_id limit offset w
         \<or> out = get_related_entities self entity_type related_entity_type accession_id
                   limit offset w"
  shows "\<exists>rq. issued_by w out = [rq]
          \<and> fst out =
              (case serve w (sent w) rq of
                 Unreachable \<Rightarrow> Inl ConnectionError
               | Reply r \<Rightarrow>
                   if 400 \<le> status_code r \<and> status_code r < 600
                   then Inl (HTTPError (status_code r))
                   else (case json r of None \<Rightarrow> Inl JSONDecodeError | Some j \<Rightarrow> Inr j))"
proof -
  from assms obtain endpoint ps where "out = private_get self endpoint ps w"
    by (auto simp add: get_related_entities_eq get_entity_eq)
  then show ?thesis
    by (simp add: private_get_outcome)
qed

theorem outcome_of_call_witness:
  "fst (get_entity (init None) ''studies'' (Some ''EGAS00000000000'') None None
          \<lparr>sent = [], serve = canned (Reply \<lparr>status_code = 404, json = Some ''{}''\<rparr>),
                  wire = [], followed = via []\<rparr>)
     = Inl (HTTPError 404)"
  using outcome_of_call [of
      "get_entity (init None) ''studies'' (Some ''EGAS00000000000'') None None
         \<lparr>sent = [], serve = canned (Reply \<lparr>status_code = 404, json = Some ''{}''\<rparr>),
                 wire = [], followed = via []\<rparr>"
      "init None" "''studies''" "Some ''EGAS00000000000''" None None
      "\<lparr>sent = [], serve = canned (Reply \<lparr>status_code = 404, json = Some ''{}''\<rparr>),
               wire = [], followed = via []\<rparr>"]
  by (auto simp add: canned_def)

text \<open>
  Claim C6 as stated, with every status outside 200 to 299 raising a request error,
  fails at the statuses that \<open>raise_for_status\<close> lets through: a response with status
  300 and a JSON body is returned decoded, and a response with status 304 and an empty
  body raises the decoding error, not a request error.
\<close>

theorem outcome_of_call_counterexample:
  "fst (get_entity (init None) ''studies'' None None None
          \<lparr>sent = [], serve = canned (Reply \<lparr>status_code = 300, json = Some ''[]''\<rparr>),
                  wire = [], followed = via []\<rparr>)
     = Inr ''[]''
   \<and> fst (get_entity (init None) ''studies'' None None None
          \<lparr>sent = [], serve = canned (Reply \<lparr>status_code = 304, json = (None :: string option)\<rparr>),
                  wire = [], followed = via []\<rparr>)
     = Inl JSONDecodeError"
  by (simp add: get_entity_eq private_get_eq canned_def)

subsection \<open>The frame of a call\<close>

text \<open>
  Claim C9, as amended. For every client and every call of \<open>get_entity\<close> or
  \<open>get_related_entities\<close>, whatever its outcome, the client object after the call is
  the client object before it, so its \<open>base_url\<close>, the only attribute, is unchanged;
  and the call calls \<open>requests.get\<close> exactly once, with no retry. The HTTP requests
  that go out are the ones the library sends for that one call, and nothing else in
  the world changes: none when the library rejects the URL, otherwise the request
  itself and one more GET for each redirect followed, so that exactly one HTTP request
  goes out exactly when the request is sent and no redirect is followed.
\<close>

theorem call_frame:
  assumes "out = get_entity self entity_type accession_id limit offset w
         \<or> out = get_related_entities self entity_type related_entity_type accession_id
                   limit offset w"
  shows "fst (snd out) = self
       \<and> base_url (fst (snd out)) = base_url self
       \<and> length (issued_by w out) = 1
       \<and> (\<exists>rq. issued_by w out = [rq]
             \<and> snd (snd out) = w\<lparr>sent := sent w @ [rq],
                                  wire := wire w @ on_wire (followed w (sent w) rq) rq\<rparr>
             \<and> outbound w out = on_wire (followed w (sent w) rq) rq
             \<and> (length (outbound w out) = 1) = (followed w (sent w) rq = Some []))"
proof -
  from assms obtain endpoint ps where "out = private_get self endpoint ps w"
    by (auto simp add: get_related_entities_eq get_entity_eq)
  then show ?thesis
    using private_get_frame [of self endpoint ps w] by simp
qed

theorem call_frame_witness:
  "fst (snd (get_related_entities (init (Some ''http://localhost'')) ''studies'' ''datasets''
               (Some ''EGAS50000000209'') None None
               \<lparr>sent = [], serve = canned (Unreachable :: unit reply),
                wire = [], followed = via []\<rparr>))
     = init (Some ''http://localhost'')
   \<and> sent (snd (snd (get_related_entities (init (Some ''http://localhost'')) ''studies''
               ''datasets'' (Some ''EGAS50000000209'') None None
               \<lparr>sent = [], serve = canned (Unreachable :: unit reply),
                wire = [], followed = via []\<rparr>)))
     = [\<lparr>meth = ''GET'', url = ''http://localhost/studies/EGAS50000000209/datasets'',
         params = []\<rparr>]
   \<and> wire (snd (snd (get_related_entities (init (Some ''http://localhost'')) ''studies''
               ''datasets'' (Some ''EGAS50000000209'') None None
               \<lparr>sent = [], serve = canned (Unreachable :: unit reply),
                wire = [], followed = via []\<rparr>)))
     = [\<lparr>meth = ''GET'', url = ''http://localhost/studies/EGAS50000000209/datasets'',
         params = []\<rparr>]"
  using call_frame [of
      "get_related_entities (init (Some ''http://localhost'')) ''studies'' ''datasets''
         (Some ''EGAS50000000209'') None None
         \<lparr>sent = [], serve = canned (Unreachable :: unit reply),
          wire = [], followed = via []\<rparr>"
      "init (Some ''http://localhost'')" "''studies''" "Some ''EGAS50000000209''" None None
      "\<lparr>sent = [], serve = canned (Unreachable :: unit reply),
        wire = [], followed = via []\<rparr>" "''datasets''"]
  by (simp add: get_related_entities_eq private_get_eq init_def via_def on_wire_def)

text \<open>
  Claim C9 as stated, with exactly one outbound HTTP request for each call, fails
  where a server redirects: \<open>requests.get\<close> is called with its default of following
  redirects, so when the request for \<open>/studies\<close> is answered with a redirect to
  \<open>/studies/\<close> and that one with the data, the one call of \<open>get_entity\<close> puts two
  GET requests on the wire.
\<close>

theorem call_frame_counterexample:
  "outbound
     \<lparr>sent = [], serve = canned (Reply \<lparr>status_code = 200, json = Some ''[]''\<rparr>),
      wire = [], followed = via [''https://metadata.ega-archive.org/studies/'']\<rparr>
     (get_entity (init None) ''studies'' None None None
        \<lparr>sent = [], serve = canned (Reply \<lparr>status_code = 200, json = Some ''[]''\<rparr>),
         wire = [], followed = via [''https://metadata.ega-archive.org/studies/'']\<rparr>)
     = [\<lparr>meth = ''GET'', url = ''https://metadata.ega-archive.org/studies'', params = []\<rparr>,
        \<lparr>meth = ''GET'', url = ''https://metadata.ega-archive.org/studies/'', params = []\<rparr>]
   \<and> length (outbound
     \<lparr>sent = [], serve = canned (Reply \<lparr>status_code = 200, json = Some ''[]''\<rparr>),
      wire = [], followed = via [''https://metadata.ega-archive.org/studies/'']\<rparr>
     (get_entity (init None) ''studies'' None None None
        \<lparr>sent = [], serve = canned (Reply \<lparr>status_code = 200, json = Some ''[]''\<rparr>),
         wire = [], followed = via [''https://metadata.ega-archive.org/studies/'']\<rparr>))
     \<noteq> 1"
  by (simp add: outbound_def get_entity_eq private_get_eq init_def default_base_url_def
        via_def on_wire_def redirected_def)

end
